theory Spec2Isabelle
  imports Main "HOL-Library.Word"
begin

section \<open>The scalar types of epiforecast\<close>

text \<open>
  The repository's source is the header \<^verbatim>\<open>epiforecast/src/epiforecast_types.hpp\<close>.
  After its author and licence comments it holds six alias declarations and nothing
  else:
  \<^verbatim>\<open>
  // xxx global typedefs; perhaps better as template arguments
  using Time = double;
  using Observation = double;
  using Mean = double;
  using SD = double;
  using LogLikelihood = double;
  using Rp = double;
  \<close>
  The header is embedded twice. The alias declarations themselves become type
  synonyms (this section). The text of the header becomes a list of declarations, with
  the rules a C++ translation unit applies to them (the next sections), so that what
  the header does not contain can be stated as well.
\<close>

text \<open>
  Modelled from the spec: the built-in type \<^verbatim>\<open>double\<close>, which the header uses and does
  not declare. The spec's data model gives it as the 64-bit IEEE-754 scalar; a value is
  modelled by the 64 bits of its binary64 encoding (sign, exponent, fraction), so every
  bit pattern, those of the NaNs and of the two infinities included, is a value. No
  arithmetic is modelled: the header has none.
\<close>

type_synonym double = "64 word"

type_synonym Time = double
type_synonym Observation = double
type_synonym Mean = double
type_synonym SD = double
type_synonym LogLikelihood = double
type_synonym Rp = double

section \<open>The header as a list of declarations\<close>

text \<open>
  A type as a declaration writes it: a built-in type, or the name of a type declared
  earlier.
\<close>

datatype cpp_type = BoolT | CharT | IntT | FloatT | DoubleT | NamedT string

text \<open>
  The top-level items of a header: an \<^verbatim>\<open>#include\<close> directive, an alias declaration
  \<^verbatim>\<open>using N = T;\<close>, the definition of a namespace-scope object \<^verbatim>\<open>T n;\<close> and the
  definition of a function with its result and parameter types. Comments are dropped.
\<close>

datatype item =
    Include string
  | Using string cpp_type
  | Variable string cpp_type
  | Function string cpp_type "cpp_type list"

text \<open>How a header protects itself against being included twice, if it does.\<close>

datatype guard = NoGuard | PragmaOnce | IfndefGuard string

record header =
  guard :: guard
  items :: "item list"

definition epiforecast_types_hpp :: header where
  "epiforecast_types_hpp =
     \<lparr>guard = NoGuard,
      items =
        [Using ''Time'' DoubleT,
         Using ''Observation'' DoubleT,
         Using ''Mean'' DoubleT,
         Using ''SD'' DoubleT,
         Using ''LogLikelihood'' DoubleT,
         Using ''Rp'' DoubleT]\<rparr>"

text \<open>The source files of the repository, by path.\<close>

definition source_files :: "(string \<times> header) list" where
  "source_files = [(''epiforecast/src/epiforecast_types.hpp'', epiforecast_types_hpp)]"

subsection \<open>What a header contains\<close>

fun alias_of :: "item \<Rightarrow> (string \<times> cpp_type) option" where
  "alias_of (Using n t) = Some (n, t)"
| "alias_of _ = None"

fun is_alias :: "item \<Rightarrow> bool" where
  "is_alias (Using n t) = True"
| "is_alias _ = False"

fun include_of :: "item \<Rightarrow> string option" where
  "include_of (Include f) = Some f"
| "include_of _ = None"

fun operation_of :: "item \<Rightarrow> string option" where
  "operation_of (Function n r ps) = Some n"
| "operation_of _ = None"

fun object_of :: "item \<Rightarrow> string option" where
  "object_of (Variable n t) = Some n"
| "object_of _ = None"

fun names_in :: "cpp_type \<Rightarrow> string list" where
  "names_in (NamedT n) = [n]"
| "names_in _ = []"

fun referenced :: "item \<Rightarrow> string list" where
  "referenced (Include f) = []"
| "referenced (Using n t) = names_in t"
| "referenced (Variable n t) = names_in t"
| "referenced (Function n r ps) = names_in r @ concat (map names_in ps)"

definition alias_declarations :: "header \<Rightarrow> (string \<times> cpp_type) list" where
  "alias_declarations h = List.map_filter alias_of (items h)"

definition include_directives :: "header \<Rightarrow> string list" where
  "include_directives h = List.map_filter include_of (items h)"

definition operations :: "header \<Rightarrow> string list" where
  "operations h = List.map_filter operation_of (items h)"

definition global_objects :: "header \<Rightarrow> string list" where
  "global_objects h = List.map_filter object_of (items h)"

definition referenced_names :: "header \<Rightarrow> string list" where
  "referenced_names h = concat (map referenced (items h))"

text \<open>The alias names the spec lists.\<close>

definition alias_names :: "string list" where
  "alias_names = [''Time'', ''Observation'', ''Mean'', ''SD'', ''LogLikelihood'', ''Rp'']"

section \<open>Translating declarations\<close>

text \<open>
  What a translation unit knows after a run of declarations: the alias names with the
  type each denotes (never a name: an alias of an alias denotes the aliased type), and
  the entities that exist when the program runs, namespace-scope objects and functions.
\<close>

record scope =
  aliases :: "(string \<times> cpp_type) list"
  objects :: "(string \<times> cpp_type) list"
  function_defs :: "(string \<times> cpp_type \<times> cpp_type list) list"

definition empty_scope :: scope where
  "empty_scope = \<lparr>aliases = [], objects = [], function_defs = []\<rparr>"

datatype error =
    FileNotFound string
  | UnknownType string
  | ConflictingDeclaration string
  | Redefinition string

fun resolve :: "scope \<Rightarrow> cpp_type \<Rightarrow> error + cpp_type" where
  "resolve s (NamedT n) =
     (case map_of (aliases s) n of None \<Rightarrow> Inl (UnknownType n) | Some t \<Rightarrow> Inr t)"
| "resolve s t = Inr t"

fun resolve_all :: "scope \<Rightarrow> cpp_type list \<Rightarrow> error + cpp_type list" where
  "resolve_all s [] = Inr []"
| "resolve_all s (t # ts) =
     (case resolve s t of
        Inl e \<Rightarrow> Inl e
      | Inr ty \<Rightarrow> (case resolve_all s ts of Inl e \<Rightarrow> Inl e | Inr tys \<Rightarrow> Inr (ty # tys)))"

definition entity_names :: "scope \<Rightarrow> string list" where
  "entity_names s = map fst (objects s) @ map fst (function_defs s)"

text \<open>
  One declaration. The header is translated on its own, so no other file can be found.
  An alias may be declared again in the same scope if it names the type it already
  names; an object or a function is defined once; a name is an alias or an entity, not
  both.
\<close>

fun declare_item :: "item \<Rightarrow> scope \<Rightarrow> error + scope" where
  "declare_item (Include f) s = Inl (FileNotFound f)"
| "declare_item (Using n t) s =
     (case resolve s t of
        Inl e \<Rightarrow> Inl e
      | Inr ty \<Rightarrow>
          if n \<in> set (entity_names s) then Inl (ConflictingDeclaration n)
          else (case map_of (aliases s) n of
                  None \<Rightarrow> Inr (s\<lparr>aliases := aliases s @ [(n, ty)]\<rparr>)
                | Some ty' \<Rightarrow> if ty' = ty then Inr s else Inl (ConflictingDeclaration n)))"
| "declare_item (Variable n t) s =
     (case resolve s t of
        Inl e \<Rightarrow> Inl e
      | Inr ty \<Rightarrow>
          if n \<in> set (map fst (aliases s)) then Inl (ConflictingDeclaration n)
          else if n \<in> set (entity_names s) then Inl (Redefinition n)
          else Inr (s\<lparr>objects := objects s @ [(n, ty)]\<rparr>))"
| "declare_item (Function n r ps) s =
     (case resolve s r of
        Inl e \<Rightarrow> Inl e
      | Inr ty \<Rightarrow>
          (case resolve_all s ps of
             Inl e \<Rightarrow> Inl e
           | Inr tys \<Rightarrow>
               if n \<in> set (map fst (aliases s)) then Inl (ConflictingDeclaration n)
               else if n \<in> set (entity_names s) then Inl (Redefinition n)
               else Inr (s\<lparr>function_defs := function_defs s @ [(n, ty, tys)]\<rparr>)))"

fun translate :: "item list \<Rightarrow> scope \<Rightarrow> error + scope" where
  "translate [] s = Inr s"
| "translate (d # ds) s =
     (case declare_item d s of Inl e \<Rightarrow> Inl e | Inr s' \<Rightarrow> translate ds s')"

text \<open>
  The declarations a translation unit sees when it includes a header \<open>k\<close> times: a
  guarded header contributes its items once, an unguarded one every time.
\<close>

fun included :: "header \<Rightarrow> nat \<Rightarrow> item list" where
  "included h 0 = []"
| "included h (Suc k) = (if guard h = NoGuard then items h @ included h k else items h)"

text \<open>The type an alias name denotes once the header has been translated on its own.\<close>

definition alias_type :: "header \<Rightarrow> string \<Rightarrow> cpp_type option" where
  "alias_type h n =
     (case translate (items h) empty_scope of
        Inl e \<Rightarrow> None
      | Inr s \<Rightarrow> map_of (aliases s) n)"

text \<open>
  Two types written in declarations after the header are the same type when they
  resolve, in the header's scope, to one type; a value of one is then a value of the
  other as it is, with no conversion.
\<close>

definition interchangeable :: "header \<Rightarrow> cpp_type \<Rightarrow> cpp_type \<Rightarrow> bool" where
  "interchangeable h a b =
     (case translate (items h) empty_scope of
        Inl e \<Rightarrow> False
      | Inr s \<Rightarrow>
          (case resolve s a of
             Inl e \<Rightarrow> False
           | Inr ta \<Rightarrow> (case resolve s b of Inl e \<Rightarrow> False | Inr tb \<Rightarrow> ta = tb)))"

text \<open>
  A scope extends another when it keeps every alias of it with its type and has the
  same objects and functions.
\<close>

definition extends :: "scope \<Rightarrow> scope \<Rightarrow> bool" where
  "extends s s' \<longleftrightarrow>
     (\<forall>n t. map_of (aliases s) n = Some t \<longrightarrow> map_of (aliases s') n = Some t)
     \<and> objects s' = objects s \<and> function_defs s' = function_defs s"

section \<open>Facts about translation\<close>

lemma translate_append:
  "translate (ds @ es) s =
     (case translate ds s of Inl e \<Rightarrow> Inl e | Inr s' \<Rightarrow> translate es s')"
  by (induction ds arbitrary: s) (simp_all split: sum.splits)

lemma translate_header:
  "translate (items epiforecast_types_hpp) empty_scope =
     Inr \<lparr>aliases =
            [(''Time'', DoubleT), (''Observation'', DoubleT), (''Mean'', DoubleT),
             (''SD'', DoubleT), (''LogLikelihood'', DoubleT), (''Rp'', DoubleT)],
          objects = [], function_defs = []\<rparr>"
  by (simp add: epiforecast_types_hpp_def empty_scope_def entity_names_def)

lemma extends_refl: "extends s s"
  by (simp add: extends_def)

lemma extends_trans: "extends s1 s2 \<Longrightarrow> extends s2 s3 \<Longrightarrow> extends s1 s3"
  by (simp add: extends_def)

lemma resolve_extends: "resolve s t = Inr ty \<Longrightarrow> extends s s' \<Longrightarrow> resolve s' t = Inr ty"
  by (cases t) (auto simp: extends_def split: option.splits)

lemma declare_alias_extends:
  "declare_item (Using n t) s = Inr s' \<Longrightarrow> extends s s'"
  by (auto simp: extends_def split: sum.splits if_splits option.splits)

lemma declare_alias_again:
  assumes "declare_item (Using n t) s = Inr s1" and "extends s1 s2"
  shows "declare_item (Using n t) s2 = Inr s2"
proof -
  from assms(1) obtain ty where r: "resolve s t = Inr ty"
    by (auto split: sum.splits)
  from assms(1) r have fresh: "n \<notin> set (entity_names s)"
    by (auto split: if_splits)
  from assms(1) r fresh have bound: "map_of (aliases s1) n = Some ty"
    by (auto simp: map_add_def split: option.splits if_splits)
  have "extends s s1" using assms(1) by (rule declare_alias_extends)
  then have e: "extends s s2" using assms(2) by (rule extends_trans)
  with r have r2: "resolve s2 t = Inr ty" by (rule resolve_extends)
  from e fresh have fresh2: "n \<notin> set (entity_names s2)"
    by (simp add: extends_def entity_names_def)
  from bound assms(2) have "map_of (aliases s2) n = Some ty"
    by (simp add: extends_def)
  with r2 fresh2 show ?thesis by simp
qed

lemma translate_aliases_extends:
  "list_all is_alias ds \<Longrightarrow> translate ds s = Inr s' \<Longrightarrow> extends s s'"
proof (induction ds arbitrary: s)
  case Nil
  then show ?case by (simp add: extends_refl)
next
  case (Cons d ds)
  from Cons.prems(1) obtain n t where d: "d = Using n t" by (cases d) auto
  from Cons.prems(2) obtain s1 where s1: "declare_item d s = Inr s1" and rest: "translate ds s1 = Inr s'"
    by (auto split: sum.splits)
  from s1 have "extends s s1" unfolding d by (rule declare_alias_extends)
  moreover from Cons.IH Cons.prems(1) rest have "extends s1 s'" by simp
  ultimately show ?case by (rule extends_trans)
qed

lemma translate_aliases_again:
  "list_all is_alias ds \<Longrightarrow> translate ds s = Inr s' \<Longrightarrow> extends s' s2 \<Longrightarrow> translate ds s2 = Inr s2"
proof (induction ds arbitrary: s)
  case Nil
  then show ?case by simp
next
  case (Cons d ds)
  from Cons.prems(1) obtain n t where d: "d = Using n t" by (cases d) auto
  from Cons.prems(2) obtain s1 where s1: "declare_item d s = Inr s1" and rest: "translate ds s1 = Inr s'"
    by (auto split: sum.splits)
  from Cons.prems(1) have all: "list_all is_alias ds" by simp
  from all rest have "extends s1 s'" by (rule translate_aliases_extends)
  then have "extends s1 s2" using Cons.prems(3) by (rule extends_trans)
  with s1 have "declare_item d s2 = Inr s2" unfolding d by (rule declare_alias_again)
  moreover from all rest Cons.prems(3) have "translate ds s2 = Inr s2" by (rule Cons.IH)
  ultimately show ?case by simp
qed

text \<open>
  A run of alias declarations that translates can be translated again, in the scope it
  produced or in any scope extending it, and changes nothing there.
\<close>

lemma translate_twice:
  assumes "list_all is_alias ds" and "translate ds s = Inr s'"
  shows "translate (ds @ ds) s = Inr s'"
  using assms translate_aliases_again [OF assms extends_refl]
  by (simp add: translate_append)

lemma header_aliases_only: "list_all is_alias (items epiforecast_types_hpp)"
  by (simp add: epiforecast_types_hpp_def)

subsection \<open>The rules at work\<close>

text \<open>
  The rules reject what C++ rejects: an alias declared again with another type, an
  object defined twice, an \<^verbatim>\<open>#include\<close> when the header is translated alone, a type
  name that was never declared. An alias of an alias denotes the aliased type, and a
  guarded header contributes its items once.
\<close>

lemma conflicting_alias_rejected:
  "translate [Using ''Time'' DoubleT, Using ''Time'' FloatT] empty_scope
     = Inl (ConflictingDeclaration ''Time'')"
  by (simp add: empty_scope_def entity_names_def)

lemma object_defined_twice_rejected:
  "translate ([Variable ''x'' DoubleT] @ [Variable ''x'' DoubleT]) empty_scope
     = Inl (Redefinition ''x'')"
  by (simp add: empty_scope_def entity_names_def)

lemma include_needs_a_file:
  "translate [Include ''Rcpp.h'', Using ''Time'' DoubleT] empty_scope
     = Inl (FileNotFound ''Rcpp.h'')"
  by simp

lemma unknown_name_rejected:
  "translate [Using ''Time'' (NamedT ''real_t'')] empty_scope = Inl (UnknownType ''real_t'')"
  by (simp add: empty_scope_def)

lemma alias_of_alias:
  "translate [Using ''Time'' DoubleT, Using ''Week'' (NamedT ''Time'')] empty_scope
     = Inr \<lparr>aliases = [(''Time'', DoubleT), (''Week'', DoubleT)],
            objects = [], function_defs = []\<rparr>"
  by (simp add: empty_scope_def entity_names_def)

lemma guarded_header_once:
  "included \<lparr>guard = PragmaOnce, items = ds\<rparr> 2 = ds"
  by (simp add: numeral_2_eq_2)

section \<open>The claims\<close>

text \<open>
  C2, as stated: the header contains exactly seven scalar type aliases. It does not:
  the spec's sentence itself names six, and the header declares those six.
\<close>

theorem seven_aliases_counterexample:
  "\<not> (length (alias_declarations epiforecast_types_hpp) = 7)"
  by (simp add: alias_declarations_def epiforecast_types_hpp_def)

text \<open>
  C2, amended: the visible source is a single header file, and it contains exactly six
  scalar type aliases, \<open>Time\<close>, \<open>Observation\<close>, \<open>Mean\<close>, \<open>SD\<close>, \<open>LogLikelihood\<close> and
  \<open>Rp\<close>, in this order, each bound to \<open>double\<close>; the header has no other item.
\<close>

theorem six_aliases:
  "length source_files = 1
   \<and> map snd source_files = [epiforecast_types_hpp]
   \<and> length (alias_declarations epiforecast_types_hpp) = 6
   \<and> map fst (alias_declarations epiforecast_types_hpp) = alias_names
   \<and> map snd (alias_declarations epiforecast_types_hpp) = replicate 6 DoubleT
   \<and> length (items epiforecast_types_hpp) = 6"
  by (simp add: source_files_def alias_declarations_def epiforecast_types_hpp_def
      alias_names_def numeral_eq_Suc)

text \<open>
  C1: each of the alias names \<open>Time\<close>, \<open>Observation\<close>, \<open>Mean\<close>, \<open>SD\<close>,
  \<open>LogLikelihood\<close> and \<open>Rp\<close> resolves to the type \<open>double\<close>, the 64-bit floating-point
  scalar: once the header is translated, every name of the list denotes exactly the
  built-in type \<open>double\<close>, whose values are the \<open>2 ^ 64\<close> binary64 encodings.
\<close>

theorem aliases_resolve_to_double:
  "(\<forall>n \<in> set alias_names. alias_type epiforecast_types_hpp n = Some DoubleT)
   \<and> card (UNIV :: double set) = 2 ^ 64"
  by (simp add: alias_type_def translate_header alias_names_def card_word)

theorem aliases_resolve_to_double_witness:
  "''LogLikelihood'' \<in> set alias_names
   \<and> alias_type epiforecast_types_hpp ''LogLikelihood'' = Some DoubleT"
proof -
  have "''LogLikelihood'' \<in> set alias_names"
    by (simp add: alias_names_def)
  with aliases_resolve_to_double show ?thesis by blast
qed

text \<open>
  C3: every alias is a transparent synonym. In the header's scope each alias name and
  \<open>double\<close> are one type, and the embedding of each alias type is the embedding of
  \<open>double\<close>: the two have the same values, bit for bit.
\<close>

theorem alias_is_double:
  "(\<forall>n \<in> set alias_names. interchangeable epiforecast_types_hpp (NamedT n) DoubleT)
   \<and> (UNIV :: Time set) = (UNIV :: double set)
   \<and> (UNIV :: Observation set) = (UNIV :: double set)
   \<and> (UNIV :: Mean set) = (UNIV :: double set)
   \<and> (UNIV :: SD set) = (UNIV :: double set)
   \<and> (UNIV :: LogLikelihood set) = (UNIV :: double set)
   \<and> (UNIV :: Rp set) = (UNIV :: double set)"
  by (simp add: interchangeable_def translate_header alias_names_def)

theorem alias_is_double_witness:
  "''Time'' \<in> set alias_names
   \<and> interchangeable epiforecast_types_hpp (NamedT ''Time'') DoubleT
   \<and> \<not> interchangeable epiforecast_types_hpp (NamedT ''Time'') FloatT"
proof -
  have m: "''Time'' \<in> set alias_names"
    by (simp add: alias_names_def)
  have "\<not> interchangeable epiforecast_types_hpp (NamedT ''Time'') FloatT"
    by (simp add: interchangeable_def translate_header)
  with m alias_is_double show ?thesis by blast
qed

text \<open>
  C4: no invariant restricts the values of the alias types. Every value \<open>d\<close> of
  \<open>double\<close>, whatever its bits (those of a NaN or of an infinity as well), is a value
  of each of \<open>Time\<close>, \<open>Observation\<close>, \<open>Mean\<close>, \<open>SD\<close>, \<open>LogLikelihood\<close> and \<open>Rp\<close>; an
  alias type has all \<open>2 ^ 64\<close> values; and the header has no item but alias
  declarations, so no operation of it constrains a value.
\<close>

theorem alias_values_unrestricted:
  "(d :: double) \<in> (UNIV :: Time set)
   \<and> d \<in> (UNIV :: Observation set)
   \<and> d \<in> (UNIV :: Mean set)
   \<and> d \<in> (UNIV :: SD set)
   \<and> d \<in> (UNIV :: LogLikelihood set)
   \<and> d \<in> (UNIV :: Rp set)
   \<and> card (UNIV :: Time set) = 2 ^ 64
   \<and> list_all is_alias (items epiforecast_types_hpp)"
  by (simp add: card_word epiforecast_types_hpp_def)

text \<open>
  C5: no operation exported by the header can fail, because it exports none: the
  header declares no function, and translating it on its own succeeds and leaves the
  scope without a function.
\<close>

theorem no_operations:
  "operations epiforecast_types_hpp = []
   \<and> (\<exists>s. translate (items epiforecast_types_hpp) empty_scope = Inr s
          \<and> function_defs s = [])"
  by (simp add: operations_def translate_header) (simp add: epiforecast_types_hpp_def)

text \<open>
  C6: the header introduces no runtime entity and touches no state. It defines no
  object and no function, and in whatever scope its declarations are translated, the
  objects and the functions of the program are afterwards what they were before.
\<close>

theorem header_frame:
  "global_objects epiforecast_types_hpp = []
   \<and> operations epiforecast_types_hpp = []
   \<and> (translate (items epiforecast_types_hpp) s = Inr s'
        \<longrightarrow> objects s' = objects s \<and> function_defs s' = function_defs s)"
proof -
  have "objects s' = objects s \<and> function_defs s' = function_defs s"
    if "translate (items epiforecast_types_hpp) s = Inr s'"
    using translate_aliases_extends [OF header_aliases_only that]
    by (simp add: extends_def)
  moreover have "global_objects epiforecast_types_hpp = []"
    by (simp add: global_objects_def epiforecast_types_hpp_def)
  moreover have "operations epiforecast_types_hpp = []"
    by (simp add: operations_def epiforecast_types_hpp_def)
  ultimately show ?thesis by blast
qed

text \<open>
  The frame at a scope that already has an alias, an object and a function: the
  header translates there, and the object and the function are untouched.
\<close>

theorem header_frame_witness:
  "translate (items epiforecast_types_hpp)
     \<lparr>aliases = [(''Week'', IntT)], objects = [(''counter'', IntT)],
      function_defs = [(''simulate'', DoubleT, [DoubleT])]\<rparr>
   = Inr \<lparr>aliases =
            [(''Week'', IntT), (''Time'', DoubleT), (''Observation'', DoubleT),
             (''Mean'', DoubleT), (''SD'', DoubleT), (''LogLikelihood'', DoubleT),
             (''Rp'', DoubleT)],
          objects = [(''counter'', IntT)],
          function_defs = [(''simulate'', DoubleT, [DoubleT])]\<rparr>
   \<and> objects \<lparr>aliases =
            [(''Week'', IntT), (''Time'', DoubleT), (''Observation'', DoubleT),
             (''Mean'', DoubleT), (''SD'', DoubleT), (''LogLikelihood'', DoubleT),
             (''Rp'', DoubleT)],
          objects = [(''counter'', IntT)],
          function_defs = [(''simulate'', DoubleT, [DoubleT])]\<rparr>
     = objects \<lparr>aliases = [(''Week'', IntT)], objects = [(''counter'', IntT)],
          function_defs = [(''simulate'', DoubleT, [DoubleT])]\<rparr>"
proof -
  have t: "translate (items epiforecast_types_hpp)
     \<lparr>aliases = [(''Week'', IntT)], objects = [(''counter'', IntT)],
      function_defs = [(''simulate'', DoubleT, [DoubleT])]\<rparr>
   = Inr \<lparr>aliases =
            [(''Week'', IntT), (''Time'', DoubleT), (''Observation'', DoubleT),
             (''Mean'', DoubleT), (''SD'', DoubleT), (''LogLikelihood'', DoubleT),
             (''Rp'', DoubleT)],
          objects = [(''counter'', IntT)],
          function_defs = [(''simulate'', DoubleT, [DoubleT])]\<rparr>"
    by (simp add: epiforecast_types_hpp_def entity_names_def)
  with header_frame show ?thesis by blast
qed

text \<open>
  C7: the header compiles standalone. It has no \<^verbatim>\<open>#include\<close> directive, it refers to
  no type by name, every alias is bound to the built-in \<open>double\<close>, and translating
  it from the empty scope, with no other file at hand, succeeds.
\<close>

theorem header_standalone:
  "include_directives epiforecast_types_hpp = []
   \<and> referenced_names epiforecast_types_hpp = []
   \<and> set (map snd (alias_declarations epiforecast_types_hpp)) = {DoubleT}
   \<and> (\<exists>s. translate (items epiforecast_types_hpp) empty_scope = Inr s)"
  by (simp add: translate_header)
     (simp add: include_directives_def referenced_names_def alias_declarations_def
       epiforecast_types_hpp_def)

text \<open>
  C8: the six aliases are pairwise interchangeable. Any two names of the list denote
  one type in the header's scope, so a value of one is a value of the other as it is;
  on the embedded types, the identity is a function from \<open>SD\<close> to \<open>Mean\<close>.
\<close>

theorem aliases_interchangeable:
  "(\<forall>a \<in> set alias_names. \<forall>b \<in> set alias_names.
      interchangeable epiforecast_types_hpp (NamedT a) (NamedT b))
   \<and> (id :: SD \<Rightarrow> Mean) = (id :: double \<Rightarrow> double)"
  by (simp add: interchangeable_def translate_header alias_names_def)

theorem aliases_interchangeable_witness:
  "''SD'' \<in> set alias_names \<and> ''Mean'' \<in> set alias_names
   \<and> interchangeable epiforecast_types_hpp (NamedT ''SD'') (NamedT ''Mean'')"
proof -
  have "''SD'' \<in> set alias_names" and "''Mean'' \<in> set alias_names"
    by (simp_all add: alias_names_def)
  with aliases_interchangeable show ?thesis by blast
qed

text \<open>
  C9: including the header twice is including it once. The header has no guard, so a
  unit that includes it twice sees its six declarations twice; translating them gives
  the scope that translating them once gives, and that translation succeeds.
\<close>

theorem inclusion_idempotent:
  "guard epiforecast_types_hpp = NoGuard
   \<and> included epiforecast_types_hpp 2
       = items epiforecast_types_hpp @ items epiforecast_types_hpp
   \<and> included epiforecast_types_hpp 1 = items epiforecast_types_hpp
   \<and> translate (included epiforecast_types_hpp 2) empty_scope
       = translate (included epiforecast_types_hpp 1) empty_scope
   \<and> (\<exists>s. translate (included epiforecast_types_hpp 1) empty_scope = Inr s)"
proof -
  have g: "guard epiforecast_types_hpp = NoGuard"
    by (simp add: epiforecast_types_hpp_def)
  then have two: "included epiforecast_types_hpp 2
      = items epiforecast_types_hpp @ items epiforecast_types_hpp"
    by (simp add: numeral_2_eq_2)
  from g have one: "included epiforecast_types_hpp 1 = items epiforecast_types_hpp"
    by simp
  from translate_twice [OF header_aliases_only translate_header]
  have "translate (included epiforecast_types_hpp 2) empty_scope
      = translate (included epiforecast_types_hpp 1) empty_scope"
    by (simp only: two one translate_header)
  with g two one translate_header show ?thesis by simp
qed

end
